theory Spec2Isabelle
  imports Main "HOL-Library.Sublist"
begin

section \<open>Data model (src/src/index.ts, lines 1-12)\<close>

text \<open>
  \<^verbatim>\<open>interface MusicInfo { artist: string; title: string; album?: string; }\<close>
  The optional field is an option: \<open>None\<close> is the absent (undefined) album.
\<close>

record MusicInfo =
  artist :: string
  title :: string
  album :: "string option"

text \<open>
  A session is typed \<^verbatim>\<open>any\<close> in the source. The model keeps exactly the fields the
  code probes. A field that may be missing is an option (\<open>None\<close> is undefined or
  null); text fields hold strings, the playback status and the timeline hold integers.
  The nested media object carries both \<^verbatim>\<open>album\<close> (read by extractMusicInfo) and
  \<^verbatim>\<open>albumTitle\<close> (read by getCurrentMusic).
\<close>

record mediaProps =
  media_artist :: "string option"
  media_title :: "string option"
  media_album :: "string option"
  media_albumTitle :: "string option"

record timelineProps =
  duration :: int
  position :: int

record playbackInfo =
  playbackStatus :: int

record session =
  media :: "mediaProps option"
  session_artist :: "string option"
  session_title :: "string option"
  session_album :: "string option"
  timeline :: "timelineProps option"
  playback :: "playbackInfo option"

text \<open>
  JavaScript truthiness of a text field, and \<^verbatim>\<open>x || ''\<close>: undefined, null and the empty
  string are falsy.
\<close>

definition truthy :: "string option \<Rightarrow> bool" where
  "truthy x = (case x of None \<Rightarrow> False | Some s \<Rightarrow> s \<noteq> [])"

definition or_empty :: "string option \<Rightarrow> string" where
  "or_empty x = (case x of None \<Rightarrow> [] | Some s \<Rightarrow> s)"

text \<open>
  Console output: one constructor for each \<^verbatim>\<open>console.log\<close> / \<^verbatim>\<open>console.error\<close> call
  site of the class. The four actions are the first arguments of logMusicChange
  ('Nova musica detectada', 'Musica parou', 'Musica tocando', 'Musica pausada'); the
  time stamp and the layout of the lines are left out.
\<close>

datatype action = NewMusicDetected | MusicStopped | MusicPlaying | MusicPaused

datatype console_line =
    SessionChangedLine
  | CurrentSessionLine
  | MusicWithoutDetailsLine
  | MusicChangeLine action "MusicInfo option"
  | UnknownStatusLine int
  | AlreadyInitializedLine
  | StartingLine
  | WaitingLine
  | RuleLine
  | InitializeErrorLine
  | StoppingLine

text \<open>
  The third-party SMTCMonitor is not part of the repository. It is represented by what
  the class touches: the list its \<^verbatim>\<open>sessions\<close> getter returns (the class only reads
  it; the list itself may be falsy and so may its first entry), the calls the class
  makes to \<^verbatim>\<open>_initialize()\<close> and \<^verbatim>\<open>destroy()\<close>, kept as a trace, and whether
  \<^verbatim>\<open>_initialize()\<close> throws (the source wraps the call in try/catch).
\<close>

datatype native_call = Initialize | Destroy

record SMTCMonitor =
  sessions :: "session option list option"
  initialize_throws :: bool
  native_calls :: "native_call list"

record DeezerMusicMonitor =
  monitor :: SMTCMonitor
  currentMusic :: "MusicInfo option"
  isInitialized :: bool
  console :: "console_line list"

section \<open>The monitor class (src/src/index.ts, lines 14-220)\<close>

definition console_log :: "console_line \<Rightarrow> DeezerMusicMonitor \<Rightarrow> DeezerMusicMonitor" where
  "console_log l st = st\<lparr>console := console st @ [l]\<rparr>"

text \<open>
  logMusicChange (lines 110-125): the track is printed only when it is present with a
  non-empty artist and title; otherwise only the action is printed.
\<close>

definition logMusicChange ::
  "action \<Rightarrow> MusicInfo option \<Rightarrow> DeezerMusicMonitor \<Rightarrow> DeezerMusicMonitor" where
  "logMusicChange a musicInfo st =
     (case musicInfo of
        Some m \<Rightarrow>
          if artist m \<noteq> [] \<and> title m \<noteq> []
          then console_log RuleLine (console_log (MusicChangeLine a (Some m)) st)
          else console_log RuleLine (console_log (MusicChangeLine a None) st)
      | None \<Rightarrow> console_log RuleLine (console_log (MusicChangeLine a None) st))"

text \<open>
  hasMusicChanged (lines 100-108), with \<^verbatim>\<open>this.currentMusic\<close> as the first argument.
  \<^verbatim>\<open>!==\<close> on the album compares undefined and strings as they are.
\<close>

definition hasMusicChanged :: "MusicInfo option \<Rightarrow> MusicInfo \<Rightarrow> bool" where
  "hasMusicChanged current newMusic =
     (case current of
        None \<Rightarrow> True
      | Some cur \<Rightarrow>
          artist cur \<noteq> artist newMusic \<or>
          title cur \<noteq> title newMusic \<or>
          album cur \<noteq> album newMusic)"

text \<open>handlePlaybackStatus (lines 83-98).\<close>

definition handlePlaybackStatus :: "int \<Rightarrow> DeezerMusicMonitor \<Rightarrow> DeezerMusicMonitor" where
  "handlePlaybackStatus status st =
     (if status = 0 then (logMusicChange MusicStopped None st)\<lparr>currentMusic := None\<rparr>
      else if status = 1 then logMusicChange MusicPlaying (currentMusic st) st
      else if status = 2 then logMusicChange MusicPaused (currentMusic st) st
      else console_log (UnknownStatusLine status) st)"

text \<open>
  extractMusicInfo (lines 40-81). The if / else-if chain of lines 45-74 computes the
  local \<^verbatim>\<open>musicInfo\<close> and, in its third branch only, handles the playback status.
\<close>

definition extractMusicInfo_chain ::
  "session \<Rightarrow> DeezerMusicMonitor \<Rightarrow> MusicInfo option \<times> DeezerMusicMonitor" where
  "extractMusicInfo_chain s st =
     (case media s of
        Some m \<Rightarrow>
          (Some \<lparr>artist = or_empty (media_artist m),
                 title = or_empty (media_title m),
                 album = Some (or_empty (media_album m))\<rparr>, st)
      | None \<Rightarrow>
          if truthy (session_artist s) \<or> truthy (session_title s)
          then (Some \<lparr>artist = or_empty (session_artist s),
                       title = or_empty (session_title s),
                       album = Some (or_empty (session_album s))\<rparr>, st)
          else (case timeline s of
                  None \<Rightarrow> (None, st)
                | Some tline \<Rightarrow>
                    if duration tline > 0
                    then (None,
                          (case playback s of
                             None \<Rightarrow> console_log MusicWithoutDetailsLine st
                           | Some p \<Rightarrow>
                               handlePlaybackStatus (playbackStatus p)
                                 (console_log MusicWithoutDetailsLine st)))
                    else (None, st)))"

definition extractMusicInfo :: "session \<Rightarrow> DeezerMusicMonitor \<Rightarrow> DeezerMusicMonitor" where
  "extractMusicInfo s st =
     (case extractMusicInfo_chain s st of
        (None, st1) \<Rightarrow> st1
      | (Some musicInfo, st1) \<Rightarrow>
          if hasMusicChanged (currentMusic st1) musicInfo
          then logMusicChange NewMusicDetected (Some musicInfo)
                 (st1\<lparr>currentMusic := Some musicInfo\<rparr>)
          else st1)"

text \<open>checkCurrentMusic (lines 27-38) and the event listener (lines 19-25).\<close>

definition checkCurrentMusic :: "DeezerMusicMonitor \<Rightarrow> DeezerMusicMonitor" where
  "checkCurrentMusic st =
     (case sessions (monitor st) of
        None \<Rightarrow> st
      | Some [] \<Rightarrow> st
      | Some (currentSession # _) \<Rightarrow>
          (case currentSession of
             None \<Rightarrow> console_log CurrentSessionLine st
           | Some s \<Rightarrow> extractMusicInfo s (console_log CurrentSessionLine st)))"

definition on_current_session_changed :: "DeezerMusicMonitor \<Rightarrow> DeezerMusicMonitor" where
  "on_current_session_changed st = checkCurrentMusic (console_log SessionChangedLine st)"

text \<open>start (lines 194-211) and stop (lines 213-219).\<close>

definition call_native :: "native_call \<Rightarrow> DeezerMusicMonitor \<Rightarrow> DeezerMusicMonitor" where
  "call_native c st = st\<lparr>monitor := (monitor st)\<lparr>native_calls := native_calls (monitor st) @ [c]\<rparr>\<rparr>"

definition start :: "DeezerMusicMonitor \<Rightarrow> DeezerMusicMonitor" where
  "start st =
     (if isInitialized st then console_log AlreadyInitializedLine st
      else
        let st1 = console_log RuleLine (console_log WaitingLine (console_log StartingLine st));
            st2 = call_native Initialize st1
        in if initialize_throws (monitor st2)
           then console_log InitializeErrorLine st2
           else st2\<lparr>isInitialized := True\<rparr>)"

definition stop :: "DeezerMusicMonitor \<Rightarrow> DeezerMusicMonitor" where
  "stop st =
     (let st1 = console_log StoppingLine st
      in if isInitialized st1
         then (call_native Destroy st1)\<lparr>isInitialized := False\<rparr>
         else st1)"

text \<open>
  getCurrentMusic (lines 131-155): the returned value and the state it leaves. The
  album is read from \<^verbatim>\<open>media.albumTitle\<close> here.
\<close>

definition getCurrentMusic ::
  "DeezerMusicMonitor \<Rightarrow> MusicInfo option \<times> DeezerMusicMonitor" where
  "getCurrentMusic st =
     (let st1 = (if \<not> isInitialized st then start st else st);
          st2 =
            (case sessions (monitor st1) of
               None \<Rightarrow> st1
             | Some [] \<Rightarrow> st1
             | Some (currentSession # _) \<Rightarrow>
                 (case currentSession of
                    None \<Rightarrow> st1
                  | Some s \<Rightarrow>
                      (case media s of
                         None \<Rightarrow> st1
                       | Some m \<Rightarrow>
                           let musicInfo =
                                 \<lparr>artist = or_empty (media_artist m),
                                  title = or_empty (media_title m),
                                  album = Some (or_empty (media_albumTitle m))\<rparr>
                           in if hasMusicChanged (currentMusic st1) musicInfo
                              then st1\<lparr>currentMusic := Some musicInfo\<rparr>
                              else st1)))
      in (currentMusic st2, st2))"

text \<open>The constructor (lines 14-17): no track, not initialized, nothing printed.\<close>

definition new_DeezerMusicMonitor :: "SMTCMonitor \<Rightarrow> DeezerMusicMonitor" where
  "new_DeezerMusicMonitor m =
     \<lparr>monitor = m, currentMusic = None, isInitialized = False, console = []\<rparr>"

section \<open>The server's adapters (server.ts: src/src/index.ts, lines 353-516)\<close>

text \<open>
  Strings are lists of characters, each a code unit below 256. \<^verbatim>\<open>trim()\<close> removes the
  JavaScript white space and line terminators at both ends; in this range they are
  TAB, LF, VT, FF, CR, the space and the no-break space.
\<close>

definition is_space :: "char \<Rightarrow> bool" where
  "is_space c = (c \<in> set [CHR 0x09, CHR 0x0A, CHR 0x0B, CHR 0x0C, CHR 0x0D, CHR 0x20, CHR 0xA0])"

definition trim :: "string \<Rightarrow> string" where
  "trim s = rev (dropWhile is_space (rev (dropWhile is_space s)))"

text \<open>
  \<^verbatim>\<open>s.split(sep)\<close>: every occurrence of the separator, scanned from the left, ends a
  part; the text after the last occurrence is the last part. \<open>cur\<close> is the part being
  read. With the empty separator JavaScript returns the single characters.
\<close>

fun split_from :: "string \<Rightarrow> string \<Rightarrow> string \<Rightarrow> string list" where
  "split_from sep cur [] = [cur]"
| "split_from sep cur (c # cs) =
     (if sep \<noteq> [] \<and> prefix sep (c # cs)
      then cur # split_from sep [] (drop (length sep) (c # cs))
      else split_from sep (cur @ [c]) cs)"

definition split :: "string \<Rightarrow> string \<Rightarrow> string list" where
  "split sep s = (if sep = [] then map (\<lambda>c. [c]) s else split_from sep [] s)"

text \<open>\<^verbatim>\<open>parts[i]\<close>: undefined beyond the end of the array.\<close>

definition nth_opt :: "'a list \<Rightarrow> nat \<Rightarrow> 'a option" where
  "nth_opt xs i = (if i < length xs then Some (xs ! i) else None)"

text \<open>\<^verbatim>\<open>title.replace(/-$/, "")\<close>: one hyphen at the very end is removed.\<close>

definition strip_trailing_hyphen :: "string \<Rightarrow> string" where
  "strip_trailing_hyphen t = (if t \<noteq> [] \<and> last t = CHR ''-'' then butlast t else t)"

text \<open>
  What \<^verbatim>\<open>exec\<close> hands to its callback: an error, or the standard output of the
  command. A promise is resolved with a value or rejected with a reason.
\<close>

datatype exec_result = ExecError | ExecOk string

datatype 'a promise = Resolved 'a | Rejected string

text \<open>getSpotifyMusicWindows (lines 369-397), from the outcome of the playerctl command.\<close>

definition getSpotifyMusicWindows :: "exec_result \<Rightarrow> MusicInfo option promise" where
  "getSpotifyMusicWindows r =
     (case r of
        ExecError \<Rightarrow> Resolved None
      | ExecOk stdout \<Rightarrow>
          let output = trim stdout in
          if output = [] then Resolved None
          else
            let parts = split '' - '' output in
            if truthy (nth_opt parts 0) \<and> truthy (nth_opt parts 1)
            then Resolved (Some \<lparr>artist = trim (or_empty (nth_opt parts 0)),
                                  title = trim (or_empty (nth_opt parts 1)),
                                  album = None\<rparr>)
            else Resolved None)"

text \<open>getLinuxMusic (lines 493-516).\<close>

definition getLinuxMusic :: "exec_result \<Rightarrow> MusicInfo option promise" where
  "getLinuxMusic r =
     (case r of
        ExecError \<Rightarrow> Rejected ''An error occurred''
      | ExecOk stdout \<Rightarrow>
          let output = trim stdout;
              parts = split '' - '' output
          in
            if truthy (nth_opt parts 0) \<and> truthy (nth_opt parts 1)
            then
              let cleanArtist = trim (or_empty (nth_opt (split '','' (or_empty (nth_opt parts 0))) 0));
                  cleanTitle = trim (strip_trailing_hyphen (or_empty (nth_opt parts 1)))
              in Resolved (Some \<lparr>artist = cleanArtist, title = cleanTitle, album = None\<rparr>)
            else Rejected ''Unable to parse song information'')"

text \<open>getMacOSMusic (lines 446-468), from the outcome of the osascript command.\<close>

definition getMacOSMusic :: "exec_result \<Rightarrow> MusicInfo option promise" where
  "getMacOSMusic r =
     (case r of
        ExecError \<Rightarrow> Rejected ''An error occurred''
      | ExecOk stdout \<Rightarrow>
          let output = trim stdout;
              parts = split '' - '' output
          in
            if length parts \<ge> 2
            then Resolved (Some \<lparr>artist = trim (parts ! 1), title = trim (parts ! 0), album = None\<rparr>)
            else Rejected ''Unable to parse song information'')"

text \<open>
  getDeezerMusic (lines 354-366). The global \<^verbatim>\<open>deezerMonitor\<close> is passed in and
  returned. \<open>fresh\<close> is the library object a \<^verbatim>\<open>new SMTCMonitor()\<close> would give, \<open>None\<close>
  when the constructor throws; the catch block turns that into null.
\<close>

definition getDeezerMusic ::
  "SMTCMonitor option \<Rightarrow> DeezerMusicMonitor option \<Rightarrow>
     MusicInfo option promise \<times> DeezerMusicMonitor option" where
  "getDeezerMusic fresh deezerMonitor =
     (case deezerMonitor of
        Some m \<Rightarrow> (case getCurrentMusic m of (r, m') \<Rightarrow> (Resolved r, Some m'))
      | None \<Rightarrow>
          (case fresh of
             None \<Rightarrow> (Resolved None, None)
           | Some smtc \<Rightarrow>
               (case getCurrentMusic (start (new_DeezerMusicMonitor smtc)) of
                  (r, m') \<Rightarrow> (Resolved r, Some m'))))"

text \<open>
  getWindowsMusic (lines 471-490). The second component lists the adapters that were
  asked, in order: playerctl is run only when the second \<^verbatim>\<open>await\<close> is reached.
\<close>

datatype adapter = DeezerAdapter | PlayerctlAdapter

definition getWindowsMusic ::
  "SMTCMonitor option \<Rightarrow> exec_result \<Rightarrow> DeezerMusicMonitor option \<Rightarrow>
     MusicInfo option promise \<times> adapter list \<times> DeezerMusicMonitor option" where
  "getWindowsMusic fresh playerctl deezerMonitor =
     (case getDeezerMusic fresh deezerMonitor of
        (Rejected e, dm) \<Rightarrow> (Rejected e, [DeezerAdapter], dm)
      | (Resolved (Some musicInfo), dm) \<Rightarrow> (Resolved (Some musicInfo), [DeezerAdapter], dm)
      | (Resolved None, dm) \<Rightarrow>
          (case getSpotifyMusicWindows playerctl of
             Rejected e \<Rightarrow> (Rejected e, [DeezerAdapter, PlayerctlAdapter], dm)
           | Resolved (Some musicInfo) \<Rightarrow>
               (Resolved (Some musicInfo), [DeezerAdapter, PlayerctlAdapter], dm)
           | Resolved None \<Rightarrow> (Resolved None, [DeezerAdapter, PlayerctlAdapter], dm)))"

section \<open>Runs of the monitor and what the specification talks about\<close>

text \<open>
  What can happen to a monitor object: the library replaces its session list, the
  library emits 'current-session-changed', or a caller invokes a public method.
\<close>

datatype event =
    SessionsBecome "session option list option"
  | CurrentSessionChanged
  | CallGetCurrentMusic
  | CallStart
  | CallStop

fun step :: "DeezerMusicMonitor \<Rightarrow> event \<Rightarrow> DeezerMusicMonitor" where
  "step st (SessionsBecome ss) = st\<lparr>monitor := (monitor st)\<lparr>sessions := ss\<rparr>\<rparr>"
| "step st CurrentSessionChanged = on_current_session_changed st"
| "step st CallGetCurrentMusic = snd (getCurrentMusic st)"
| "step st CallStart = start st"
| "step st CallStop = stop st"

definition run :: "DeezerMusicMonitor \<Rightarrow> event list \<Rightarrow> DeezerMusicMonitor" where
  "run st es = foldl step st es"

text \<open>
  The class stores no playback state. The state of the specification's playback state
  machine (0 = Stopped, 1 = Playing, 2 = Paused, anything else = Unknown) is the status
  handlePlaybackStatus handled last; each of its four branches prints a line of its
  own, so the console shows it.
\<close>

datatype PlaybackStatus = Stopped | Playing | Paused | Unknown int

fun line_status :: "console_line \<Rightarrow> PlaybackStatus option" where
  "line_status (MusicChangeLine MusicStopped _) = Some Stopped"
| "line_status (MusicChangeLine MusicPlaying _) = Some Playing"
| "line_status (MusicChangeLine MusicPaused _) = Some Paused"
| "line_status (UnknownStatusLine code) = Some (Unknown code)"
| "line_status _ = None"

fun playback_state :: "console_line list \<Rightarrow> PlaybackStatus option" where
  "playback_state [] = None"
| "playback_state (l # ls) =
     (case playback_state ls of Some p \<Rightarrow> Some p | None \<Rightarrow> line_status l)"

definition status_of_code :: "int \<Rightarrow> PlaybackStatus" where
  "status_of_code code =
     (if code = 0 then Stopped else if code = 1 then Playing
      else if code = 2 then Paused else Unknown code)"

text \<open>
  The change detector as the specification words it: the album of either record is
  replaced by the empty string when it is absent, then the three fields are compared.
\<close>

definition hasChanged_spec :: "MusicInfo option \<Rightarrow> MusicInfo \<Rightarrow> bool" where
  "hasChanged_spec previous candidate =
     (case previous of
        None \<Rightarrow> True
      | Some p \<Rightarrow>
          artist p \<noteq> artist candidate \<or>
          title p \<noteq> title candidate \<or>
          or_empty (album p) \<noteq> or_empty (album candidate))"

text \<open>
  Splitting on the first occurrence of the separator only, as the specification words
  the parsing rule: the text before it, and all the text after it.
\<close>

fun split_first_from :: "string \<Rightarrow> string \<Rightarrow> string \<Rightarrow> string list" where
  "split_first_from sep cur [] = [cur]"
| "split_first_from sep cur (c # cs) =
     (if sep \<noteq> [] \<and> prefix sep (c # cs)
      then [cur, drop (length sep) (c # cs)]
      else split_first_from sep (cur @ [c]) cs)"

definition split_on_first :: "string \<Rightarrow> string \<Rightarrow> string list" where
  "split_on_first sep s = split_first_from sep [] s"

text \<open>Putting the separator back between the parts.\<close>

fun join :: "string \<Rightarrow> string list \<Rightarrow> string" where
  "join sep [] = []"
| "join sep [p] = p"
| "join sep (p # q # ps) = p @ sep @ join sep (q # ps)"

text \<open>
  The snapshots in which getCurrentMusic finds nothing to read: no session list, an
  empty one, a missing first entry, or a first session without a media field.
\<close>

definition no_media_snapshot :: "DeezerMusicMonitor \<Rightarrow> bool" where
  "no_media_snapshot st =
     (case sessions (monitor st) of
        None \<Rightarrow> True
      | Some [] \<Rightarrow> True
      | Some (None # _) \<Rightarrow> True
      | Some (Some s # _) \<Rightarrow> media s = None)"

text \<open>
  The outputs the playerctl adapters accept: the first two parts of the trimmed output,
  split at '' - '', both exist and are non-empty (the test \<^verbatim>\<open>artist && title\<close>).
\<close>

definition cli_parsable :: "string \<Rightarrow> bool" where
  "cli_parsable out =
     (case split '' - '' (trim out) of
        a # t # _ \<Rightarrow> a \<noteq> [] \<and> t \<noteq> []
      | _ \<Rightarrow> False)"

text \<open>The stored track, when there is one, has an album (possibly the empty string).\<close>

definition album_present :: "DeezerMusicMonitor \<Rightarrow> bool" where
  "album_present st = (case currentMusic st of None \<Rightarrow> True | Some m \<Rightarrow> album m \<noteq> None)"

subsection \<open>Concrete inputs\<close>

text \<open>
  A library object with no session yet, once with a working and once with a throwing
  \<^verbatim>\<open>_initialize()\<close>; a session as the library reports one (the album under
  \<^verbatim>\<open>albumTitle\<close>, transport status 0); the same track with the album under \<^verbatim>\<open>album\<close>;
  a session that carries only a timeline and a transport status; and a session whose
  media object lacks the artist while the session has direct fields of its own.
\<close>

definition idle_smtc :: SMTCMonitor where
  "idle_smtc = \<lparr>sessions = Some [], initialize_throws = False, native_calls = []\<rparr>"

definition failing_smtc :: SMTCMonitor where
  "failing_smtc = \<lparr>sessions = Some [], initialize_throws = True, native_calls = []\<rparr>"

definition library_session :: session where
  "library_session =
     \<lparr>media = Some \<lparr>media_artist = Some ''Daft Punk'', media_title = Some ''One More Time'',
                     media_album = None, media_albumTitle = Some ''Discovery''\<rparr>,
      session_artist = None, session_title = None, session_album = None,
      timeline = Some \<lparr>duration = 320, position = 12\<rparr>,
      playback = Some \<lparr>playbackStatus = 0\<rparr>\<rparr>"

definition album_session :: session where
  "album_session =
     \<lparr>media = Some \<lparr>media_artist = Some ''Daft Punk'', media_title = Some ''One More Time'',
                     media_album = Some ''Discovery'', media_albumTitle = None\<rparr>,
      session_artist = None, session_title = None, session_album = None,
      timeline = None, playback = None\<rparr>"

definition timeline_session :: "int \<Rightarrow> session" where
  "timeline_session status =
     \<lparr>media = None, session_artist = None, session_title = None, session_album = None,
      timeline = Some \<lparr>duration = 320, position = 0\<rparr>,
      playback = Some \<lparr>playbackStatus = status\<rparr>\<rparr>"

definition mixed_session :: session where
  "mixed_session =
     \<lparr>media = Some \<lparr>media_artist = None, media_title = Some ''One More Time'',
                     media_album = Some ''Discovery'', media_albumTitle = None\<rparr>,
      session_artist = Some ''Justice'', session_title = Some ''Genesis'',
      session_album = Some ''Cross'',
      timeline = Some \<lparr>duration = 320, position = 0\<rparr>,
      playback = Some \<lparr>playbackStatus = 1\<rparr>\<rparr>"

section \<open>Auxiliary facts\<close>

lemma playback_state_append:
  "playback_state (ls @ ms) =
     (case playback_state ms of Some p \<Rightarrow> Some p | None \<Rightarrow> playback_state ls)"
  by (induction ls) (auto split: option.splits)

lemma console_logMusicChange:
  "console (logMusicChange a mi st) =
     console st @
       [MusicChangeLine a
          (case mi of
             None \<Rightarrow> None
           | Some m \<Rightarrow> if artist m \<noteq> [] \<and> title m \<noteq> [] then Some m else None),
        RuleLine]"
  by (simp add: logMusicChange_def console_log_def split: option.splits)

lemma currentMusic_logMusicChange:
  "currentMusic (logMusicChange a mi st) = currentMusic st"
  by (simp add: logMusicChange_def console_log_def split: option.splits)

lemma start_frame:
  "currentMusic (start st) = currentMusic st \<and>
   sessions (monitor (start st)) = sessions (monitor st)"
  by (simp add: start_def console_log_def call_native_def Let_def)

lemma extractMusicInfo_chain_track:
  "media s \<noteq> None \<or> truthy (session_artist s) \<or> truthy (session_title s) \<Longrightarrow>
   \<exists>mi. extractMusicInfo_chain s st = (Some mi, st)"
  by (cases "media s") (auto simp add: extractMusicInfo_chain_def)

text \<open>
  Every record the class stores is built with \<^verbatim>\<open>album: ... || ''\<close>, so along every run
  of a new monitor the stored track has an album.
\<close>

lemma currentMusic_handlePlaybackStatus:
  "currentMusic (handlePlaybackStatus status st) = (if status = 0 then None else currentMusic st)"
  by (simp add: handlePlaybackStatus_def currentMusic_logMusicChange console_log_def)

lemma album_present_extractMusicInfo:
  "album_present st \<Longrightarrow> album_present (extractMusicInfo s st)"
  by (auto simp add: album_present_def extractMusicInfo_def extractMusicInfo_chain_def
      currentMusic_logMusicChange currentMusic_handlePlaybackStatus console_log_def
      split: option.splits if_splits)

lemma album_present_step:
  assumes a: "album_present st"
  shows "album_present (step st e)"
proof (cases e)
  case (SessionsBecome ss)
  then show ?thesis using a by (simp add: album_present_def)
next
  case CurrentSessionChanged
  have b: "album_present (console_log l st')" if "album_present st'" for l st'
    using that by (simp add: album_present_def console_log_def)
  show ?thesis
    using a CurrentSessionChanged
    by (auto simp add: on_current_session_changed_def checkCurrentMusic_def b
        album_present_extractMusicInfo split: option.splits list.splits)
next
  case CallGetCurrentMusic
  then show ?thesis
    using a start_frame [of st]
    by (auto simp add: album_present_def getCurrentMusic_def Let_def
        split: option.splits list.splits)
next
  case CallStart
  then show ?thesis using a start_frame [of st] by (simp add: album_present_def)
next
  case CallStop
  then show ?thesis using a
    by (simp add: album_present_def stop_def console_log_def call_native_def Let_def)
qed

lemma album_present_run: "album_present st \<Longrightarrow> album_present (run st es)"
  unfolding run_def by (induction es arbitrary: st) (simp_all add: album_present_step)

lemma album_present_new: "album_present (run (new_DeezerMusicMonitor m) es)"
  by (rule album_present_run) (simp add: album_present_def new_DeezerMusicMonitor_def)

text \<open>What extractMusicInfo does in each branch of its chain, and the event handler.\<close>

lemma hasMusicChanged_False: "\<not> hasMusicChanged cur mi \<Longrightarrow> cur = Some mi"
  by (cases cur) (auto simp add: hasMusicChanged_def)

lemma extractMusicInfo_track:
  assumes "extractMusicInfo_chain s st = (Some mi, st)"
  shows "extractMusicInfo s st =
           (if hasMusicChanged (currentMusic st) mi
            then logMusicChange NewMusicDetected (Some mi) (st\<lparr>currentMusic := Some mi\<rparr>)
            else st)"
    and "currentMusic (extractMusicInfo s st) = Some mi"
    and "playback_state (console (extractMusicInfo s st)) = playback_state (console st)"
proof -
  show e: "extractMusicInfo s st =
           (if hasMusicChanged (currentMusic st) mi
            then logMusicChange NewMusicDetected (Some mi) (st\<lparr>currentMusic := Some mi\<rparr>)
            else st)"
    using assms by (simp add: extractMusicInfo_def)
  show "currentMusic (extractMusicInfo s st) = Some mi"
    using hasMusicChanged_False [of "currentMusic st" mi]
    by (auto simp add: e currentMusic_logMusicChange)
  show "playback_state (console (extractMusicInfo s st)) = playback_state (console st)"
    by (simp add: e console_logMusicChange playback_state_append)
qed

lemma chain_media:
  "media s = Some m \<Longrightarrow>
   extractMusicInfo_chain s st =
     (Some \<lparr>artist = or_empty (media_artist m), title = or_empty (media_title m),
            album = Some (or_empty (media_album m))\<rparr>, st)"
  by (simp add: extractMusicInfo_chain_def)

lemma chain_direct:
  "media s = None \<Longrightarrow> truthy (session_artist s) \<or> truthy (session_title s) \<Longrightarrow>
   extractMusicInfo_chain s st =
     (Some \<lparr>artist = or_empty (session_artist s), title = or_empty (session_title s),
            album = Some (or_empty (session_album s))\<rparr>, st)"
  by (auto simp add: extractMusicInfo_chain_def)

lemma extractMusicInfo_timeline:
  assumes "media s = None" "\<not> truthy (session_artist s)" "\<not> truthy (session_title s)"
  shows "extractMusicInfo s st =
     (case timeline s of
        None \<Rightarrow> st
      | Some tm \<Rightarrow>
          if duration tm > 0
          then (case playback s of
                  None \<Rightarrow> console_log MusicWithoutDetailsLine st
                | Some p \<Rightarrow> handlePlaybackStatus (playbackStatus p)
                              (console_log MusicWithoutDetailsLine st))
          else st)"
  using assms
  by (simp add: extractMusicInfo_def extractMusicInfo_chain_def split: option.splits)

lemma handlePlaybackStatus_state:
  "playback_state (console (handlePlaybackStatus code st)) = Some (status_of_code code)"
  by (simp add: handlePlaybackStatus_def status_of_code_def console_logMusicChange
      console_log_def playback_state_append)

lemma step_event:
  "sessions (monitor st) = Some (Some s # rest) \<Longrightarrow>
   on_current_session_changed st =
     extractMusicInfo s (console_log CurrentSessionLine (console_log SessionChangedLine st))"
  by (simp add: on_current_session_changed_def checkCurrentMusic_def console_log_def)

section \<open>The change detector\<close>

text \<open>
  C2, as the code has it. hasMusicChanged is true when nothing is stored, false on a
  record compared with itself, and otherwise true exactly when artist, title or album
  differ. The album is compared as it stands: for records that agree on artist and
  title the result is true iff the two albums differ, and an absent album differs from
  the empty string. Where both albums are present the result is that of the
  comparison with absent albums normalised to the empty string; that is so for the
  track stored in any state a new monitor reaches, against any candidate with an
  album.
\<close>

theorem hasMusicChanged_strict:
  "hasMusicChanged None c = True \<and>
   hasMusicChanged (Some c) c = False \<and>
   hasMusicChanged (Some p) c =
     (artist p \<noteq> artist c \<or> title p \<noteq> title c \<or> album p \<noteq> album c) \<and>
   hasMusicChanged (Some \<lparr>artist = a, title = t, album = alb\<rparr>)
       \<lparr>artist = a, title = t, album = alb2\<rparr> = (alb \<noteq> alb2) \<and>
   hasMusicChanged (Some \<lparr>artist = a, title = t, album = None\<rparr>)
       \<lparr>artist = a, title = t, album = Some []\<rparr> = True \<and>
   (album p \<noteq> None \<and> album c \<noteq> None \<longrightarrow>
      hasMusicChanged (Some p) c = hasChanged_spec (Some p) c) \<and>
   (album c \<noteq> None \<longrightarrow>
      hasMusicChanged (currentMusic (run (new_DeezerMusicMonitor m) es)) c =
      hasChanged_spec (currentMusic (run (new_DeezerMusicMonitor m) es)) c)"
proof -
  have r: "hasMusicChanged (currentMusic (run (new_DeezerMusicMonitor m) es)) c =
      hasChanged_spec (currentMusic (run (new_DeezerMusicMonitor m) es)) c"
    if "album c \<noteq> None"
    using that album_present_new [of m es]
    by (auto simp add: album_present_def hasMusicChanged_def hasChanged_spec_def or_empty_def
        split: option.splits)
  have s: "hasMusicChanged None c = True \<and>
   hasMusicChanged (Some c) c = False \<and>
   hasMusicChanged (Some p) c =
     (artist p \<noteq> artist c \<or> title p \<noteq> title c \<or> album p \<noteq> album c) \<and>
   hasMusicChanged (Some \<lparr>artist = a, title = t, album = alb\<rparr>)
       \<lparr>artist = a, title = t, album = alb2\<rparr> = (alb \<noteq> alb2) \<and>
   hasMusicChanged (Some \<lparr>artist = a, title = t, album = None\<rparr>)
       \<lparr>artist = a, title = t, album = Some []\<rparr> = True \<and>
   (album p \<noteq> None \<and> album c \<noteq> None \<longrightarrow>
      hasMusicChanged (Some p) c = hasChanged_spec (Some p) c)"
    by (auto simp add: hasMusicChanged_def hasChanged_spec_def or_empty_def)
  show ?thesis using r s by blast
qed

text \<open>
  The theorem at a track compared with itself and with a differently cased album, and
  at the track a monitor has stored from an event.
\<close>

theorem hasMusicChanged_strict_witness:
  "hasMusicChanged
     (Some \<lparr>artist = ''Daft Punk'', title = ''One More Time'', album = Some ''Discovery''\<rparr>)
     \<lparr>artist = ''Daft Punk'', title = ''One More Time'', album = Some ''discovery''\<rparr> = True \<and>
   hasMusicChanged
     (Some \<lparr>artist = ''Daft Punk'', title = ''One More Time'', album = Some ''Discovery''\<rparr>)
     \<lparr>artist = ''Daft Punk'', title = ''One More Time'', album = Some ''Discovery''\<rparr> = False \<and>
   hasChanged_spec
     (Some \<lparr>artist = ''Daft Punk'', title = ''One More Time'', album = Some ''Discovery''\<rparr>)
     \<lparr>artist = ''Daft Punk'', title = ''One More Time'', album = Some ''Discovery''\<rparr> = False \<and>
   hasChanged_spec
     (currentMusic (run (new_DeezerMusicMonitor idle_smtc)
        [SessionsBecome (Some [Some library_session]), CurrentSessionChanged]))
     \<lparr>artist = ''Daft Punk'', title = ''One More Time'', album = Some ''Discovery''\<rparr> = True"
proof -
  have e: "hasMusicChanged
     (currentMusic (run (new_DeezerMusicMonitor idle_smtc)
        [SessionsBecome (Some [Some library_session]), CurrentSessionChanged]))
     \<lparr>artist = ''Daft Punk'', title = ''One More Time'', album = Some ''Discovery''\<rparr> = True"
    by (simp add: run_def on_current_session_changed_def checkCurrentMusic_def
        extractMusicInfo_def extractMusicInfo_chain_def logMusicChange_def console_log_def
        hasMusicChanged_def or_empty_def new_DeezerMusicMonitor_def idle_smtc_def
        library_session_def)
  show ?thesis
    using e hasMusicChanged_strict
          [of "\<lparr>artist = ''Daft Punk'', title = ''One More Time'', album = Some ''Discovery''\<rparr>"
              "\<lparr>artist = ''Daft Punk'', title = ''One More Time'', album = Some ''Discovery''\<rparr>"
              "''Daft Punk''" "''One More Time''" "Some ''Discovery''" "Some ''discovery''"
              idle_smtc
              "[SessionsBecome (Some [Some library_session]), CurrentSessionChanged]"]
    by auto
qed

text \<open>
  C2 as the specification states it fails on a stored record without album against
  the same track with the empty album: the code reports a change, the normalised
  comparison does not.
\<close>

theorem hasMusicChanged_absent_album_counterexample:
  "hasMusicChanged (Some \<lparr>artist = ''a'', title = ''t'', album = None\<rparr>)
       \<lparr>artist = ''a'', title = ''t'', album = Some ''''\<rparr> = True \<and>
   hasChanged_spec (Some \<lparr>artist = ''a'', title = ''t'', album = None\<rparr>)
       \<lparr>artist = ''a'', title = ''t'', album = Some ''''\<rparr> = False"
  by (simp add: hasMusicChanged_def hasChanged_spec_def or_empty_def)

section \<open>The normalizer\<close>

text \<open>
  C3. When the session has a media field, the record extractMusicInfo derives is that
  field's artist, title and album, each replaced by the empty string when absent;
  extractMusicInfo stores exactly this record (through hasMusicChanged, printing the
  change when there is one), and its whole effect is the same whatever the direct
  fields, the timeline and the playback field hold. Without a media field but with a
  non-empty direct artist or title, the record derived and stored is made of the
  direct fields alone and the timeline and playback fields are ignored. With neither,
  no record is derived: without a timeline, or with a duration that is not positive,
  nothing happens at all; with a timeline of positive duration one line is printed and
  the playback status, when there is a playback field, is handled. So the rules are
  tried in the order media, direct fields, timeline, and only the first that matches
  is applied.
\<close>

theorem extractMusicInfo_first_rule_only:
  "(media s = Some m \<longrightarrow>
      extractMusicInfo_chain s st =
        (Some \<lparr>artist = or_empty (media_artist m), title = or_empty (media_title m),
               album = Some (or_empty (media_album m))\<rparr>, st) \<and>
      currentMusic (extractMusicInfo s st) =
        Some \<lparr>artist = or_empty (media_artist m), title = or_empty (media_title m),
              album = Some (or_empty (media_album m))\<rparr> \<and>
      extractMusicInfo s st =
        (if hasMusicChanged (currentMusic st)
              \<lparr>artist = or_empty (media_artist m), title = or_empty (media_title m),
               album = Some (or_empty (media_album m))\<rparr>
         then logMusicChange NewMusicDetected
                (Some \<lparr>artist = or_empty (media_artist m), title = or_empty (media_title m),
                       album = Some (or_empty (media_album m))\<rparr>)
                (st\<lparr>currentMusic :=
                      Some \<lparr>artist = or_empty (media_artist m),
                            title = or_empty (media_title m),
                            album = Some (or_empty (media_album m))\<rparr>\<rparr>)
         else st) \<and>
      extractMusicInfo
        (s\<lparr>session_artist := a, session_title := t, session_album := al,
           timeline := tm, playback := pb\<rparr>) st = extractMusicInfo s st) \<and>
   (media s = None \<and> (truthy (session_artist s) \<or> truthy (session_title s)) \<longrightarrow>
      extractMusicInfo_chain s st =
        (Some \<lparr>artist = or_empty (session_artist s), title = or_empty (session_title s),
               album = Some (or_empty (session_album s))\<rparr>, st) \<and>
      currentMusic (extractMusicInfo s st) =
        Some \<lparr>artist = or_empty (session_artist s), title = or_empty (session_title s),
              album = Some (or_empty (session_album s))\<rparr> \<and>
      extractMusicInfo s st =
        (if hasMusicChanged (currentMusic st)
              \<lparr>artist = or_empty (session_artist s), title = or_empty (session_title s),
               album = Some (or_empty (session_album s))\<rparr>
         then logMusicChange NewMusicDetected
                (Some \<lparr>artist = or_empty (session_artist s),
                       title = or_empty (session_title s),
                       album = Some (or_empty (session_album s))\<rparr>)
                (st\<lparr>currentMusic :=
                      Some \<lparr>artist = or_empty (session_artist s),
                            title = or_empty (session_title s),
                            album = Some (or_empty (session_album s))\<rparr>\<rparr>)
         else st) \<and>
      extractMusicInfo (s\<lparr>timeline := tm, playback := pb\<rparr>) st = extractMusicInfo s st) \<and>
   (media s = None \<and> \<not> truthy (session_artist s) \<and> \<not> truthy (session_title s) \<longrightarrow>
      fst (extractMusicInfo_chain s st) = None \<and>
      (timeline s = None \<longrightarrow> extractMusicInfo s st = st) \<and>
      (\<forall>d. timeline s = Some d \<and> duration d \<le> 0 \<longrightarrow> extractMusicInfo s st = st) \<and>
      (\<forall>d. timeline s = Some d \<and> 0 < duration d \<and> playback s = None \<longrightarrow>
         extractMusicInfo s st = console_log MusicWithoutDetailsLine st) \<and>
      (\<forall>d p. timeline s = Some d \<and> 0 < duration d \<and> playback s = Some p \<longrightarrow>
         extractMusicInfo s st =
           handlePlaybackStatus (playbackStatus p) (console_log MusicWithoutDetailsLine st) \<and>
         currentMusic (extractMusicInfo s st) =
           (if playbackStatus p = 0 then None else currentMusic st)))"
proof -
  have r1: "extractMusicInfo
        (s\<lparr>session_artist := a, session_title := t, session_album := al,
           timeline := tm, playback := pb\<rparr>) st = extractMusicInfo s st"
    if "media s = Some m"
    using that by (simp add: extractMusicInfo_def extractMusicInfo_chain_def)
  have r2: "extractMusicInfo (s\<lparr>timeline := tm, playback := pb\<rparr>) st = extractMusicInfo s st"
    if "media s = None" "truthy (session_artist s) \<or> truthy (session_title s)"
    using that by (auto simp add: extractMusicInfo_def extractMusicInfo_chain_def)
  have r3: "fst (extractMusicInfo_chain s st) = None"
    if "media s = None" "\<not> truthy (session_artist s)" "\<not> truthy (session_title s)"
    using that by (simp add: extractMusicInfo_chain_def split: option.splits)
  have r4: "(timeline s = None \<longrightarrow> extractMusicInfo s st = st) \<and>
      (\<forall>d. timeline s = Some d \<and> duration d \<le> 0 \<longrightarrow> extractMusicInfo s st = st) \<and>
      (\<forall>d. timeline s = Some d \<and> 0 < duration d \<and> playback s = None \<longrightarrow>
         extractMusicInfo s st = console_log MusicWithoutDetailsLine st) \<and>
      (\<forall>d p. timeline s = Some d \<and> 0 < duration d \<and> playback s = Some p \<longrightarrow>
         extractMusicInfo s st =
           handlePlaybackStatus (playbackStatus p) (console_log MusicWithoutDetailsLine st) \<and>
         currentMusic (extractMusicInfo s st) =
           (if playbackStatus p = 0 then None else currentMusic st))"
    if "media s = None" "\<not> truthy (session_artist s)" "\<not> truthy (session_title s)"
    using extractMusicInfo_timeline [OF that, of st]
    by (auto simp add: currentMusic_handlePlaybackStatus console_log_def)
  have A: "extractMusicInfo_chain s st =
        (Some \<lparr>artist = or_empty (media_artist m), title = or_empty (media_title m),
               album = Some (or_empty (media_album m))\<rparr>, st) \<and>
      currentMusic (extractMusicInfo s st) =
        Some \<lparr>artist = or_empty (media_artist m), title = or_empty (media_title m),
              album = Some (or_empty (media_album m))\<rparr> \<and>
      extractMusicInfo s st =
        (if hasMusicChanged (currentMusic st)
              \<lparr>artist = or_empty (media_artist m), title = or_empty (media_title m),
               album = Some (or_empty (media_album m))\<rparr>
         then logMusicChange NewMusicDetected
                (Some \<lparr>artist = or_empty (media_artist m), title = or_empty (media_title m),
                       album = Some (or_empty (media_album m))\<rparr>)
                (st\<lparr>currentMusic :=
                      Some \<lparr>artist = or_empty (media_artist m),
                            title = or_empty (media_title m),
                            album = Some (or_empty (media_album m))\<rparr>\<rparr>)
         else st)"
    if h: "media s = Some m"
    using chain_media [OF h, of st] extractMusicInfo_track [OF chain_media [OF h], of st]
    by simp
  have B: "extractMusicInfo_chain s st =
        (Some \<lparr>artist = or_empty (session_artist s), title = or_empty (session_title s),
               album = Some (or_empty (session_album s))\<rparr>, st) \<and>
      currentMusic (extractMusicInfo s st) =
        Some \<lparr>artist = or_empty (session_artist s), title = or_empty (session_title s),
              album = Some (or_empty (session_album s))\<rparr> \<and>
      extractMusicInfo s st =
        (if hasMusicChanged (currentMusic st)
              \<lparr>artist = or_empty (session_artist s), title = or_empty (session_title s),
               album = Some (or_empty (session_album s))\<rparr>
         then logMusicChange NewMusicDetected
                (Some \<lparr>artist = or_empty (session_artist s),
                       title = or_empty (session_title s),
                       album = Some (or_empty (session_album s))\<rparr>)
                (st\<lparr>currentMusic :=
                      Some \<lparr>artist = or_empty (session_artist s),
                            title = or_empty (session_title s),
                            album = Some (or_empty (session_album s))\<rparr>\<rparr>)
         else st)"
    if h1: "media s = None" and h2: "truthy (session_artist s) \<or> truthy (session_title s)"
    using chain_direct [OF h1 h2, of st]
      extractMusicInfo_track [OF chain_direct [OF h1 h2], of st]
    by simp
  show ?thesis
    apply (intro conjI impI)
    subgoal using A by blast
    subgoal using A by blast
    subgoal using A by blast
    subgoal using r1 by blast
    subgoal using B by blast
    subgoal using B by blast
    subgoal using B by blast
    subgoal using r2 by blast
    subgoal using r3 by blast
    subgoal using r4 by blast
    subgoal using r4 by blast
    subgoal using r4 by blast
    subgoal using r4 by blast
    done
qed

text \<open>
  The theorem at a session whose media object has a title and an album but no artist,
  while the session has a direct artist, title and album: the direct fields do not
  fill in. The same session without its media object replaces a stored track by the
  direct fields. A session with only a timeline and a status gives no record and has
  its status handled; without playback field it only prints; without timeline, or with
  duration 0, it does nothing.
\<close>

theorem extractMusicInfo_first_rule_only_witness:
  "media mixed_session =
     Some \<lparr>media_artist = None, media_title = Some ''One More Time'',
           media_album = Some ''Discovery'', media_albumTitle = None\<rparr> \<and>
   extractMusicInfo_chain mixed_session (new_DeezerMusicMonitor idle_smtc) =
     (Some \<lparr>artist = [], title = ''One More Time'', album = Some ''Discovery''\<rparr>,
      new_DeezerMusicMonitor idle_smtc) \<and>
   currentMusic (extractMusicInfo mixed_session (new_DeezerMusicMonitor idle_smtc)) =
     Some \<lparr>artist = [], title = ''One More Time'', album = Some ''Discovery''\<rparr> \<and>
   currentMusic (run (new_DeezerMusicMonitor idle_smtc)
      [SessionsBecome (Some [Some library_session]), CurrentSessionChanged]) =
     Some \<lparr>artist = ''Daft Punk'', title = ''One More Time'', album = Some []\<rparr> \<and>
   currentMusic (extractMusicInfo (mixed_session\<lparr>media := None\<rparr>)
      (run (new_DeezerMusicMonitor idle_smtc)
         [SessionsBecome (Some [Some library_session]), CurrentSessionChanged])) =
     Some \<lparr>artist = ''Justice'', title = ''Genesis'', album = Some ''Cross''\<rparr> \<and>
   fst (extractMusicInfo_chain (timeline_session 1) (new_DeezerMusicMonitor idle_smtc)) = None \<and>
   extractMusicInfo (timeline_session 1) (new_DeezerMusicMonitor idle_smtc) =
     handlePlaybackStatus 1
       (console_log MusicWithoutDetailsLine (new_DeezerMusicMonitor idle_smtc)) \<and>
   extractMusicInfo ((timeline_session 1)\<lparr>playback := None\<rparr>)
       (new_DeezerMusicMonitor idle_smtc) =
     console_log MusicWithoutDetailsLine (new_DeezerMusicMonitor idle_smtc) \<and>
   extractMusicInfo ((timeline_session 1)\<lparr>timeline := None\<rparr>)
       (new_DeezerMusicMonitor idle_smtc) = new_DeezerMusicMonitor idle_smtc \<and>
   extractMusicInfo ((timeline_session 1)\<lparr>timeline := Some \<lparr>duration = 0, position = 0\<rparr>\<rparr>)
       (new_DeezerMusicMonitor idle_smtc) = new_DeezerMusicMonitor idle_smtc"
proof -
  have r: "currentMusic (run (new_DeezerMusicMonitor idle_smtc)
      [SessionsBecome (Some [Some library_session]), CurrentSessionChanged]) =
     Some \<lparr>artist = ''Daft Punk'', title = ''One More Time'', album = Some []\<rparr>"
    by (simp add: run_def on_current_session_changed_def checkCurrentMusic_def
        extractMusicInfo_def extractMusicInfo_chain_def logMusicChange_def console_log_def
        hasMusicChanged_def or_empty_def new_DeezerMusicMonitor_def idle_smtc_def
        library_session_def)
  show ?thesis
    using r
      extractMusicInfo_first_rule_only
          [where s = mixed_session and st = "new_DeezerMusicMonitor idle_smtc" and
             m = "\<lparr>media_artist = None, media_title = Some ''One More Time'',
                    media_album = Some ''Discovery'', media_albumTitle = None\<rparr>"]
      extractMusicInfo_first_rule_only
          [where s = "mixed_session\<lparr>media := None\<rparr>" and
             st = "run (new_DeezerMusicMonitor idle_smtc)
               [SessionsBecome (Some [Some library_session]), CurrentSessionChanged]"]
      extractMusicInfo_first_rule_only
          [where s = "timeline_session 1" and st = "new_DeezerMusicMonitor idle_smtc"]
      extractMusicInfo_first_rule_only
          [where s = "(timeline_session 1)\<lparr>playback := None\<rparr>" and
             st = "new_DeezerMusicMonitor idle_smtc"]
      extractMusicInfo_first_rule_only
          [where s = "(timeline_session 1)\<lparr>timeline := None\<rparr>" and
             st = "new_DeezerMusicMonitor idle_smtc"]
      extractMusicInfo_first_rule_only
          [where s = "(timeline_session 1)\<lparr>timeline := Some \<lparr>duration = 0, position = 0\<rparr>\<rparr>"
             and st = "new_DeezerMusicMonitor idle_smtc"]
    by (simp add: mixed_session_def timeline_session_def or_empty_def truthy_def
        extractMusicInfo_def extractMusicInfo_chain_def handlePlaybackStatus_def
        logMusicChange_def console_log_def hasMusicChanged_def new_DeezerMusicMonitor_def
        idle_smtc_def)
qed

section \<open>The playback state machine\<close>

text \<open>
  C4, as the code has it. Handling status 0 clears the stored track whatever it was,
  and leaves the playback state Stopped. A 'current-session-changed' event handles the
  status exactly when the first session has no media field, no non-empty direct artist
  or title, a timeline of positive duration and a playback field: then the playback
  state becomes the one of the status, and the stored track is cleared for status 0
  and kept otherwise. Without media field and direct artist or title, and without a
  timeline, with a duration that is not positive or without a playback field, the
  event leaves the stored track and the playback state as they were; so does an event
  without a first session. When the first session has a media field, its status is
  not handled: the playback state stays what it was and the stored track is the media
  field's record; likewise with a non-empty direct artist or title and the record of
  the direct fields.
\<close>

theorem stopped_clears_current_music:
  "currentMusic (handlePlaybackStatus 0 st) = None \<and>
   playback_state (console (handlePlaybackStatus 0 st)) = Some Stopped \<and>
   (sessions (monitor st) = Some (Some s # rest) \<and> media s = None \<and>
      \<not> truthy (session_artist s) \<and> \<not> truthy (session_title s) \<and>
      timeline s = Some tm \<and> duration tm > 0 \<and> playback s = Some p \<and> playbackStatus p = 0 \<longrightarrow>
        currentMusic (step st CurrentSessionChanged) = None \<and>
        playback_state (console (step st CurrentSessionChanged)) = Some Stopped) \<and>
   (sessions (monitor st) = Some (Some s # rest) \<and> media s = None \<and>
      \<not> truthy (session_artist s) \<and> \<not> truthy (session_title s) \<and>
      timeline s = Some tm \<and> duration tm > 0 \<and> playback s = Some p \<longrightarrow>
        currentMusic (step st CurrentSessionChanged) =
          (if playbackStatus p = 0 then None else currentMusic st) \<and>
        playback_state (console (step st CurrentSessionChanged)) =
          Some (status_of_code (playbackStatus p))) \<and>
   (sessions (monitor st) = Some (Some s # rest) \<and> media s = None \<and>
      \<not> truthy (session_artist s) \<and> \<not> truthy (session_title s) \<and>
      (timeline s = None \<or> (\<exists>d. timeline s = Some d \<and> duration d \<le> 0) \<or>
       playback s = None) \<longrightarrow>
        currentMusic (step st CurrentSessionChanged) = currentMusic st \<and>
        playback_state (console (step st CurrentSessionChanged)) = playback_state (console st)) \<and>
   (sessions (monitor st) = None \<or> sessions (monitor st) = Some [] \<or>
      sessions (monitor st) = Some (None # rest) \<longrightarrow>
        currentMusic (step st CurrentSessionChanged) = currentMusic st \<and>
        playback_state (console (step st CurrentSessionChanged)) = playback_state (console st)) \<and>
   (sessions (monitor st) = Some (Some s # rest) \<and> media s = Some m \<longrightarrow>
        currentMusic (step st CurrentSessionChanged) =
          Some \<lparr>artist = or_empty (media_artist m), title = or_empty (media_title m),
                album = Some (or_empty (media_album m))\<rparr> \<and>
        playback_state (console (step st CurrentSessionChanged)) = playback_state (console st)) \<and>
   (sessions (monitor st) = Some (Some s # rest) \<and> media s = None \<and>
      (truthy (session_artist s) \<or> truthy (session_title s)) \<longrightarrow>
        currentMusic (step st CurrentSessionChanged) =
          Some \<lparr>artist = or_empty (session_artist s), title = or_empty (session_title s),
                album = Some (or_empty (session_album s))\<rparr> \<and>
        playback_state (console (step st CurrentSessionChanged)) = playback_state (console st))"
proof -
  let ?st1 = "console_log CurrentSessionLine (console_log SessionChangedLine st)"
  have cm: "currentMusic ?st1 = currentMusic st"
    by (simp add: console_log_def)
  have ps: "playback_state (console ?st1) = playback_state (console st)"
    by (simp add: console_log_def playback_state_append)
  have a: "currentMusic (handlePlaybackStatus 0 st) = None"
    by (simp add: currentMusic_handlePlaybackStatus)
  have b: "playback_state (console (handlePlaybackStatus 0 st)) = Some Stopped"
    using handlePlaybackStatus_state [of 0 st] by (simp add: status_of_code_def)
  have c: "currentMusic (step st CurrentSessionChanged) =
          (if playbackStatus p = 0 then None else currentMusic st) \<and>
        playback_state (console (step st CurrentSessionChanged)) =
          Some (status_of_code (playbackStatus p))"
    if h: "sessions (monitor st) = Some (Some s # rest)" "media s = None"
      "\<not> truthy (session_artist s)" "\<not> truthy (session_title s)"
      "timeline s = Some tm" "duration tm > 0" "playback s = Some p"
  proof -
    have "step st CurrentSessionChanged =
        handlePlaybackStatus (playbackStatus p) (console_log MusicWithoutDetailsLine ?st1)"
      using extractMusicInfo_timeline [OF h(2,3,4), of ?st1] h(5,6,7)
      by (simp add: step_event [OF h(1)])
    then show ?thesis
      by (simp add: currentMusic_handlePlaybackStatus handlePlaybackStatus_state
          console_log_def)
  qed
  have c0: "currentMusic (step st CurrentSessionChanged) = None \<and>
        playback_state (console (step st CurrentSessionChanged)) = Some Stopped"
    if "sessions (monitor st) = Some (Some s # rest)" "media s = None"
      "\<not> truthy (session_artist s)" "\<not> truthy (session_title s)"
      "timeline s = Some tm" "duration tm > 0" "playback s = Some p" "playbackStatus p = 0"
    using c that by (simp add: status_of_code_def)
  have d: "currentMusic (step st CurrentSessionChanged) = currentMusic st \<and>
        playback_state (console (step st CurrentSessionChanged)) = playback_state (console st)"
    if h: "sessions (monitor st) = Some (Some s # rest)" "media s = None"
      "\<not> truthy (session_artist s)" "\<not> truthy (session_title s)"
      and n: "timeline s = None \<or> (\<exists>d. timeline s = Some d \<and> duration d \<le> 0) \<or>
       playback s = None"
  proof -
    have "step st CurrentSessionChanged = ?st1 \<or>
        step st CurrentSessionChanged = console_log MusicWithoutDetailsLine ?st1"
      using extractMusicInfo_timeline [OF h(2,3,4), of ?st1] n
      by (auto simp add: step_event [OF h(1)] split: option.splits)
    then show ?thesis
      by (auto simp add: console_log_def playback_state_append)
  qed
  have e: "currentMusic (step st CurrentSessionChanged) = currentMusic st \<and>
        playback_state (console (step st CurrentSessionChanged)) = playback_state (console st)"
    if "sessions (monitor st) = None \<or> sessions (monitor st) = Some [] \<or>
      sessions (monitor st) = Some (None # rest)"
    using that
    by (auto simp add: on_current_session_changed_def checkCurrentMusic_def console_log_def
        playback_state_append)
  have f: "currentMusic (step st CurrentSessionChanged) =
          Some \<lparr>artist = or_empty (media_artist m), title = or_empty (media_title m),
                album = Some (or_empty (media_album m))\<rparr> \<and>
        playback_state (console (step st CurrentSessionChanged)) = playback_state (console st)"
    if h: "sessions (monitor st) = Some (Some s # rest)" "media s = Some m"
    using extractMusicInfo_track(2,3) [OF chain_media [OF h(2)], of ?st1] ps
    by (simp add: step_event [OF h(1)])
  have g: "currentMusic (step st CurrentSessionChanged) =
          Some \<lparr>artist = or_empty (session_artist s), title = or_empty (session_title s),
                album = Some (or_empty (session_album s))\<rparr> \<and>
        playback_state (console (step st CurrentSessionChanged)) = playback_state (console st)"
    if h: "sessions (monitor st) = Some (Some s # rest)" "media s = None"
      "truthy (session_artist s) \<or> truthy (session_title s)"
    using extractMusicInfo_track(2,3) [OF chain_direct [OF h(2,3)], of ?st1] ps
    by (simp add: step_event [OF h(1)])
  show ?thesis
    apply (intro conjI impI)
    subgoal using a by blast
    subgoal using b by blast
    subgoal using c0 by blast
    subgoal using c0 by blast
    subgoal using c by blast
    subgoal using c by blast
    subgoal using d by blast
    subgoal using d by blast
    subgoal using e by blast
    subgoal using e by blast
    subgoal using f by blast
    subgoal using f by blast
    subgoal using g by blast
    subgoal using g by blast
    done
qed

text \<open>
  The theorem at a monitor that has stored a track and then sees, in turn: a session
  with only a timeline and status 0 (track cleared, Stopped); the same with status 1
  (track kept, Playing); a session with a status but no timeline, and no session at
  all (track kept, no status handled); a session with direct fields (their record
  stored). The track itself came from a session with a media field and status 0,
  whose status was not handled.
\<close>

theorem stopped_clears_current_music_witness:
  "currentMusic (run (new_DeezerMusicMonitor idle_smtc)
      [SessionsBecome (Some [Some library_session]), CurrentSessionChanged]) =
     Some \<lparr>artist = ''Daft Punk'', title = ''One More Time'', album = Some []\<rparr> \<and>
   currentMusic (run (new_DeezerMusicMonitor idle_smtc)
      [SessionsBecome (Some [Some library_session]), CurrentSessionChanged,
       SessionsBecome (Some [Some (timeline_session 0)]), CurrentSessionChanged]) = None \<and>
   playback_state (console (run (new_DeezerMusicMonitor idle_smtc)
      [SessionsBecome (Some [Some library_session]), CurrentSessionChanged,
       SessionsBecome (Some [Some (timeline_session 0)]), CurrentSessionChanged])) =
     Some Stopped \<and>
   currentMusic (run (new_DeezerMusicMonitor idle_smtc)
      [SessionsBecome (Some [Some library_session]), CurrentSessionChanged,
       SessionsBecome (Some [Some (timeline_session 1)]), CurrentSessionChanged]) =
     Some \<lparr>artist = ''Daft Punk'', title = ''One More Time'', album = Some []\<rparr> \<and>
   playback_state (console (run (new_DeezerMusicMonitor idle_smtc)
      [SessionsBecome (Some [Some library_session]), CurrentSessionChanged,
       SessionsBecome (Some [Some (timeline_session 1)]), CurrentSessionChanged])) =
     Some Playing \<and>
   currentMusic (run (new_DeezerMusicMonitor idle_smtc)
      [SessionsBecome (Some [Some library_session]), CurrentSessionChanged,
       SessionsBecome (Some [Some ((timeline_session 0)\<lparr>timeline := None\<rparr>)]),
       CurrentSessionChanged]) =
     Some \<lparr>artist = ''Daft Punk'', title = ''One More Time'', album = Some []\<rparr> \<and>
   playback_state (console (run (new_DeezerMusicMonitor idle_smtc)
      [SessionsBecome (Some [Some library_session]), CurrentSessionChanged,
       SessionsBecome (Some [Some ((timeline_session 0)\<lparr>timeline := None\<rparr>)]),
       CurrentSessionChanged])) = None \<and>
   currentMusic (run (new_DeezerMusicMonitor idle_smtc)
      [SessionsBecome (Some [Some library_session]), CurrentSessionChanged,
       SessionsBecome (Some []), CurrentSessionChanged]) =
     Some \<lparr>artist = ''Daft Punk'', title = ''One More Time'', album = Some []\<rparr> \<and>
   playbackStatus (the (playback library_session)) = 0 \<and>
   playback_state (console (run (new_DeezerMusicMonitor idle_smtc)
      [SessionsBecome (Some [Some library_session]), CurrentSessionChanged])) = None \<and>
   currentMusic (run (new_DeezerMusicMonitor idle_smtc)
      [SessionsBecome (Some [Some library_session]), CurrentSessionChanged,
       SessionsBecome (Some [Some (mixed_session\<lparr>media := None\<rparr>)]),
       CurrentSessionChanged]) =
     Some \<lparr>artist = ''Justice'', title = ''Genesis'', album = Some ''Cross''\<rparr>"
proof -
  let ?st = "run (new_DeezerMusicMonitor idle_smtc)
      [SessionsBecome (Some [Some library_session]), CurrentSessionChanged]"
  show ?thesis
    using
      stopped_clears_current_music
          [where st = "step ?st (SessionsBecome (Some [Some (timeline_session 0)]))"
             and s = "timeline_session 0" and rest = "[]"
             and tm = "\<lparr>duration = 320, position = 0\<rparr>"
             and p = "\<lparr>playbackStatus = 0\<rparr>"]
      stopped_clears_current_music
          [where st = "step ?st (SessionsBecome (Some [Some (timeline_session 1)]))"
             and s = "timeline_session 1" and rest = "[]"
             and tm = "\<lparr>duration = 320, position = 0\<rparr>"
             and p = "\<lparr>playbackStatus = 1\<rparr>"]
      stopped_clears_current_music
          [where st = "step ?st
               (SessionsBecome (Some [Some ((timeline_session 0)\<lparr>timeline := None\<rparr>)]))"
             and s = "(timeline_session 0)\<lparr>timeline := None\<rparr>" and rest = "[]"]
      stopped_clears_current_music
          [where st = "step ?st (SessionsBecome (Some []))"]
      stopped_clears_current_music
          [where st = "step (new_DeezerMusicMonitor idle_smtc)
               (SessionsBecome (Some [Some library_session]))"
             and s = library_session and rest = "[]"
             and m = "\<lparr>media_artist = Some ''Daft Punk'', media_title = Some ''One More Time'',
                     media_album = None, media_albumTitle = Some ''Discovery''\<rparr>"]
      stopped_clears_current_music
          [where st = "step ?st
               (SessionsBecome (Some [Some (mixed_session\<lparr>media := None\<rparr>)]))"
             and s = "mixed_session\<lparr>media := None\<rparr>" and rest = "[]"]
    by (simp add: run_def on_current_session_changed_def checkCurrentMusic_def
        extractMusicInfo_def extractMusicInfo_chain_def handlePlaybackStatus_def
        logMusicChange_def console_log_def hasMusicChanged_def truthy_def or_empty_def
        new_DeezerMusicMonitor_def idle_smtc_def library_session_def timeline_session_def
        mixed_session_def status_of_code_def)
qed

text \<open>
  C4 as the specification states it fails. After a timeline-only session has delivered
  status 0, a session with a media field, itself carrying status 0, stores its track:
  the last status handled is still 0, the state is Stopped, and a track is stored.
\<close>

theorem stopped_with_track_counterexample:
  "playback_state (console (run (new_DeezerMusicMonitor idle_smtc)
      [SessionsBecome (Some [Some (timeline_session 0)]), CurrentSessionChanged,
       SessionsBecome (Some [Some library_session]), CurrentSessionChanged])) = Some Stopped \<and>
   currentMusic (run (new_DeezerMusicMonitor idle_smtc)
      [SessionsBecome (Some [Some (timeline_session 0)]), CurrentSessionChanged,
       SessionsBecome (Some [Some library_session]), CurrentSessionChanged]) =
     Some \<lparr>artist = ''Daft Punk'', title = ''One More Time'', album = Some ''''\<rparr>"
  by (simp add: run_def on_current_session_changed_def checkCurrentMusic_def
      extractMusicInfo_def extractMusicInfo_chain_def handlePlaybackStatus_def
      logMusicChange_def console_log_def hasMusicChanged_def truthy_def or_empty_def
      new_DeezerMusicMonitor_def idle_smtc_def library_session_def timeline_session_def)

section \<open>Lifecycle\<close>

text \<open>
  C9, as the code has it. From a monitor that is not initialized and whose native
  \<^verbatim>\<open>_initialize()\<close> does not throw, two calls of start in succession make exactly
  one native call, and the monitor is initialized after the first. A start on an
  initialized monitor prints one line and changes nothing else. In general start calls
  \<^verbatim>\<open>_initialize()\<close> exactly when the monitor is not initialized, and the monitor is
  initialized afterwards iff it was before or the call did not throw; stop leaves it
  not initialized and calls \<^verbatim>\<open>destroy()\<close> exactly when it was initialized. Neither
  touches the stored track.
\<close>

theorem start_stop_lifecycle:
  "(\<not> isInitialized st \<and> \<not> initialize_throws (monitor st) \<longrightarrow>
      native_calls (monitor (start (start st))) = native_calls (monitor st) @ [Initialize] \<and>
      isInitialized (start st) \<and> isInitialized (start (start st))) \<and>
   (isInitialized st \<longrightarrow> start st = console_log AlreadyInitializedLine st \<and>
      start st = st\<lparr>console := console st @ [AlreadyInitializedLine]\<rparr>) \<and>
   isInitialized (start st) = (isInitialized st \<or> \<not> initialize_throws (monitor st)) \<and>
   native_calls (monitor (start st)) =
     native_calls (monitor st) @ (if isInitialized st then [] else [Initialize]) \<and>
   isInitialized (stop st) = False \<and>
   native_calls (monitor (stop st)) =
     native_calls (monitor st) @ (if isInitialized st then [Destroy] else []) \<and>
   currentMusic (start st) = currentMusic st \<and> currentMusic (stop st) = currentMusic st"
  by (simp add: start_def stop_def console_log_def call_native_def Let_def)

text \<open>
  The theorem at a new monitor whose native initialisation works: start twice, then
  stop twice.
\<close>

theorem start_stop_lifecycle_witness:
  "\<not> isInitialized (new_DeezerMusicMonitor idle_smtc) \<and>
   \<not> initialize_throws (monitor (new_DeezerMusicMonitor idle_smtc)) \<and>
   native_calls (monitor (start (start (new_DeezerMusicMonitor idle_smtc)))) = [Initialize] \<and>
   isInitialized (start (new_DeezerMusicMonitor idle_smtc)) \<and>
   start (start (new_DeezerMusicMonitor idle_smtc)) =
     (start (new_DeezerMusicMonitor idle_smtc))
       \<lparr>console := console (start (new_DeezerMusicMonitor idle_smtc)) @ [AlreadyInitializedLine]\<rparr> \<and>
   native_calls (monitor (stop (stop (start (new_DeezerMusicMonitor idle_smtc))))) =
     [Initialize, Destroy]"
  using start_stop_lifecycle [of "new_DeezerMusicMonitor idle_smtc"]
    start_stop_lifecycle [of "start (new_DeezerMusicMonitor idle_smtc)"]
    start_stop_lifecycle [of "stop (start (new_DeezerMusicMonitor idle_smtc))"]
  by (simp add: new_DeezerMusicMonitor_def idle_smtc_def start_def stop_def console_log_def
      call_native_def Let_def)

text \<open>
  C9 as the specification states it fails when \<^verbatim>\<open>_initialize()\<close> throws, the case the
  try/catch of start is written for: two calls of start in succession call it twice,
  and no subscription is in place afterwards.
\<close>

theorem start_twice_failing_counterexample:
  "native_calls (monitor (start (start (new_DeezerMusicMonitor failing_smtc)))) =
     [Initialize, Initialize] \<and>
   isInitialized (start (start (new_DeezerMusicMonitor failing_smtc))) = False"
  by (simp add: start_def console_log_def call_native_def new_DeezerMusicMonitor_def
      failing_smtc_def Let_def)

section \<open>getCurrentMusic\<close>

text \<open>
  What getCurrentMusic does in general: it starts the monitor when needed, and when
  the first session has a media field it derives a record whose album is the media
  field's \<^verbatim>\<open>albumTitle\<close>, stores it when hasMusicChanged says so, and returns the
  stored value.
\<close>

lemma getCurrentMusic_media:
  assumes "sessions (monitor st) = Some (Some s # rest)" and "media s = Some m"
  shows "getCurrentMusic st =
     (let st1 = (if isInitialized st then st else start st);
          musicInfo = \<lparr>artist = or_empty (media_artist m), title = or_empty (media_title m),
                       album = Some (or_empty (media_albumTitle m))\<rparr>;
          st2 = (if hasMusicChanged (currentMusic st) musicInfo
                 then st1\<lparr>currentMusic := Some musicInfo\<rparr> else st1)
      in (currentMusic st2, st2))"
  using assms start_frame [of st] by (simp add: getCurrentMusic_def Let_def)

text \<open>
  C1 at two concrete monitors. With the album under \<^verbatim>\<open>albumTitle\<close>, as the library
  reports it, getCurrentMusic returns the album ''Discovery'' while the normalizer's
  media rule (extractMusicInfo) derives the empty album from the same session; with
  the album under \<^verbatim>\<open>album\<close> it is the other way round. On the first monitor the two
  paths overwrite each other's album: the event path stores the empty album,
  getCurrentMusic replaces it, and the next event of the same session stores the empty
  album again.
\<close>

theorem getCurrentMusic_album_divergence:
  "fst (getCurrentMusic (step (new_DeezerMusicMonitor idle_smtc)
          (SessionsBecome (Some [Some library_session])))) =
     Some \<lparr>artist = ''Daft Punk'', title = ''One More Time'', album = Some ''Discovery''\<rparr> \<and>
   fst (extractMusicInfo_chain library_session (new_DeezerMusicMonitor idle_smtc)) =
     Some \<lparr>artist = ''Daft Punk'', title = ''One More Time'', album = Some ''''\<rparr> \<and>
   fst (getCurrentMusic (step (new_DeezerMusicMonitor idle_smtc)
          (SessionsBecome (Some [Some album_session])))) =
     Some \<lparr>artist = ''Daft Punk'', title = ''One More Time'', album = Some ''''\<rparr> \<and>
   fst (extractMusicInfo_chain album_session (new_DeezerMusicMonitor idle_smtc)) =
     Some \<lparr>artist = ''Daft Punk'', title = ''One More Time'', album = Some ''Discovery''\<rparr> \<and>
   map currentMusic
     [run (new_DeezerMusicMonitor idle_smtc)
        [SessionsBecome (Some [Some library_session]), CurrentSessionChanged],
      run (new_DeezerMusicMonitor idle_smtc)
        [SessionsBecome (Some [Some library_session]), CurrentSessionChanged,
         CallGetCurrentMusic],
      run (new_DeezerMusicMonitor idle_smtc)
        [SessionsBecome (Some [Some library_session]), CurrentSessionChanged,
         CallGetCurrentMusic, CurrentSessionChanged]] =
     [Some \<lparr>artist = ''Daft Punk'', title = ''One More Time'', album = Some ''''\<rparr>,
      Some \<lparr>artist = ''Daft Punk'', title = ''One More Time'', album = Some ''Discovery''\<rparr>,
      Some \<lparr>artist = ''Daft Punk'', title = ''One More Time'', album = Some ''''\<rparr>]"
  by (simp add: run_def on_current_session_changed_def checkCurrentMusic_def
      extractMusicInfo_def logMusicChange_def
      getCurrentMusic_def extractMusicInfo_chain_def new_DeezerMusicMonitor_def
      idle_smtc_def library_session_def album_session_def start_def console_log_def
      call_native_def hasMusicChanged_def or_empty_def Let_def)

text \<open>The album getCurrentMusic returns on the first monitor, read off the theorem.\<close>

theorem getCurrentMusic_album_divergence_witness:
  "map_option album (fst (getCurrentMusic (step (new_DeezerMusicMonitor idle_smtc)
          (SessionsBecome (Some [Some library_session]))))) = Some (Some ''Discovery'')"
  using getCurrentMusic_album_divergence by simp

text \<open>
  C10. When the session list is missing or empty, or its first entry is missing or has
  no media field, getCurrentMusic returns the stored track and leaves it stored. In
  every state it returns what is stored afterwards, and it never replaces a stored
  track by none.
\<close>

theorem getCurrentMusic_never_clears:
  "(no_media_snapshot st \<longrightarrow>
      fst (getCurrentMusic st) = currentMusic st \<and>
      currentMusic (snd (getCurrentMusic st)) = currentMusic st) \<and>
   (currentMusic st \<noteq> None \<longrightarrow> fst (getCurrentMusic st) \<noteq> None) \<and>
   fst (getCurrentMusic st) = currentMusic (snd (getCurrentMusic st))"
  using start_frame [of st]
  by (auto simp add: getCurrentMusic_def no_media_snapshot_def Let_def
      split: option.splits list.splits)

text \<open>
  The theorem on a run: a track is recorded by an event, the session list becomes
  empty, and getCurrentMusic still returns the track; once a timeline-only session
  delivers status 0 through the event path, getCurrentMusic returns nothing.
\<close>

theorem getCurrentMusic_never_clears_witness:
  "currentMusic (run (new_DeezerMusicMonitor idle_smtc)
      [SessionsBecome (Some [Some library_session]), CurrentSessionChanged,
       SessionsBecome (Some [])]) =
     Some \<lparr>artist = ''Daft Punk'', title = ''One More Time'', album = Some ''''\<rparr> \<and>
   no_media_snapshot (run (new_DeezerMusicMonitor idle_smtc)
      [SessionsBecome (Some [Some library_session]), CurrentSessionChanged,
       SessionsBecome (Some [])]) \<and>
   fst (getCurrentMusic (run (new_DeezerMusicMonitor idle_smtc)
      [SessionsBecome (Some [Some library_session]), CurrentSessionChanged,
       SessionsBecome (Some [])])) =
     Some \<lparr>artist = ''Daft Punk'', title = ''One More Time'', album = Some ''''\<rparr> \<and>
   fst (getCurrentMusic (run (new_DeezerMusicMonitor idle_smtc)
      [SessionsBecome (Some [Some library_session]), CurrentSessionChanged,
       SessionsBecome (Some []), CallGetCurrentMusic,
       SessionsBecome (Some [Some (timeline_session 0)]), CurrentSessionChanged])) = None"
  using getCurrentMusic_never_clears [of "run (new_DeezerMusicMonitor idle_smtc)
      [SessionsBecome (Some [Some library_session]), CurrentSessionChanged,
       SessionsBecome (Some [])]"]
  by (simp add: run_def on_current_session_changed_def checkCurrentMusic_def
      extractMusicInfo_def extractMusicInfo_chain_def handlePlaybackStatus_def
      logMusicChange_def console_log_def hasMusicChanged_def truthy_def or_empty_def
      new_DeezerMusicMonitor_def idle_smtc_def library_session_def timeline_session_def
      getCurrentMusic_def start_def call_native_def no_media_snapshot_def Let_def)

section \<open>Facts about split\<close>

lemma split_from_not_Nil: "split_from sep cur s \<noteq> []"
  by (induction sep cur s rule: split_from.induct) auto

lemma join_Cons: "ps \<noteq> [] \<Longrightarrow> join sep (p # ps) = p @ sep @ join sep ps"
  by (cases ps) auto

lemma join_split_from: "sep \<noteq> [] \<Longrightarrow> join sep (split_from sep cur s) = cur @ s"
proof (induction sep cur s rule: split_from.induct)
  case (1 sep cur)
  then show ?case by simp
next
  case (2 sep cur c cs)
  show ?case
  proof (cases "prefix sep (c # cs)")
    case True
    then have "sep @ drop (length sep) (c # cs) = c # cs"
      by (metis append_eq_conv_conj prefix_def)
    then show ?thesis
      using 2 True by (simp add: join_Cons split_from_not_Nil del: drop_Suc_Cons)
  next
    case False
    then show ?thesis using 2 by simp
  qed
qed

lemma join_split: "sep \<noteq> [] \<Longrightarrow> join sep (split sep s) = s"
  by (simp add: split_def join_split_from)

lemma split_from_no_separator:
  "\<not> sublist sep s \<Longrightarrow> split_from sep cur s = [cur @ s]"
  by (induction s arbitrary: cur) (simp_all add: sublist_Cons_right)

lemma split_no_separator:
  "\<not> sublist '' - '' s \<Longrightarrow> split '' - '' s = [s]"
  using split_from_no_separator [of "'' - ''" s "[]"] by (simp add: split_def)

lemma split_from_comma_hd:
  "hd (split_from [x] cur s) = cur @ takeWhile (\<lambda>c. c \<noteq> x) s"
  by (induction s arbitrary: cur) auto

lemma before_comma:
  "or_empty (nth_opt (split '','' a) 0) = takeWhile (\<lambda>c. c \<noteq> CHR '','') a"
proof -
  have "split '','' a \<noteq> []" by (simp add: split_def split_from_not_Nil)
  then have "nth_opt (split '','' a) 0 = Some (hd (split '','' a))"
    by (simp add: nth_opt_def hd_conv_nth)
  then show ?thesis by (simp add: or_empty_def split_def split_from_comma_hd)
qed

lemma getSpotifyMusicWindows_resolved:
  "\<exists>v. getSpotifyMusicWindows r = Resolved v"
  by (cases r) (simp_all add: getSpotifyMusicWindows_def Let_def)

lemma cli_parsable_iff:
  "cli_parsable out =
     (truthy (nth_opt (split '' - '' (trim out)) 0) \<and> truthy (nth_opt (split '' - '' (trim out)) 1))"
  by (auto simp add: cli_parsable_def truthy_def nth_opt_def split: list.splits)

section \<open>The command-line adapters\<close>

text \<open>
  C5, as the code has it (getLinuxMusic). The output is trimmed and split at every
  '' - ''. When the first two parts are both non-empty, the artist is the first part
  up to its first comma and the title is the second part without one trailing hyphen,
  both trimmed; the parts after the second are dropped, although the trimmed output is
  all the parts joined by '' - ''. The hyphen rule removes exactly one hyphen at the
  very end and nothing else.
\<close>
theorem getLinuxMusic_first_two_parts:
  assumes "split '' - '' (trim out) = a # t # rest" and "a \<noteq> []" and "t \<noteq> []"
  shows "getLinuxMusic (ExecOk out) =
           Resolved (Some \<lparr>artist = trim (takeWhile (\<lambda>c. c \<noteq> CHR '','') a),
                            title = trim (strip_trailing_hyphen t), album = None\<rparr>) \<and>
         trim out = join '' - '' (a # t # rest) \<and>
         strip_trailing_hyphen (u @ ''-'') = u \<and>
         (\<forall>c. c \<noteq> CHR ''-'' \<longrightarrow> strip_trailing_hyphen (u @ [c]) = u @ [c])"
proof -
  have p0: "nth_opt (split '' - '' (trim out)) 0 = Some a"
    and p1: "nth_opt (split '' - '' (trim out)) (Suc 0) = Some t"
    using assms(1) by (simp_all add: nth_opt_def)
  have bc: "or_empty (nth_opt (split '','' a) 0) = takeWhile (\<lambda>c. c \<noteq> CHR '','') a"
    by (rule before_comma)
  have g: "getLinuxMusic (ExecOk out) =
           Resolved (Some \<lparr>artist = trim (takeWhile (\<lambda>c. c \<noteq> CHR '','') a),
                            title = trim (strip_trailing_hyphen t), album = None\<rparr>)"
    using assms(2,3) bc by (simp add: getLinuxMusic_def Let_def p0 p1 truthy_def or_empty_def)
  have j: "trim out = join '' - '' (a # t # rest)"
    using join_split [of "'' - ''" "trim out"] assms(1) by simp
  have s: "strip_trailing_hyphen (u @ ''-'') = u \<and>
         (\<forall>c. c \<noteq> CHR ''-'' \<longrightarrow> strip_trailing_hyphen (u @ [c]) = u @ [c])"
    by (simp add: strip_trailing_hyphen_def)
  show ?thesis using g j s by blast
qed

text \<open>The theorem at the two outputs of the claim, and the hyphen rule on two titles.\<close>

theorem getLinuxMusic_first_two_parts_witness:
  "split '' - '' (trim ''Daft Punk, Pharrell - One More Time -'') =
     [''Daft Punk, Pharrell'', ''One More Time -''] \<and>
   getLinuxMusic (ExecOk ''Daft Punk, Pharrell - One More Time -'') =
     Resolved (Some \<lparr>artist = ''Daft Punk'', title = ''One More Time'', album = None\<rparr>) \<and>
   split '' - '' (trim ''A - B - C'') = [''A'', ''B'', ''C''] \<and>
   getLinuxMusic (ExecOk ''A - B - C'') =
     Resolved (Some \<lparr>artist = ''A'', title = ''B'', album = None\<rparr>) \<and>
   strip_trailing_hyphen ''B--'' = ''B-'' \<and>
   strip_trailing_hyphen ''B-C'' = ''B-C''"
proof -
  have h1: "split '' - '' (trim ''Daft Punk, Pharrell - One More Time -'') =
     [''Daft Punk, Pharrell'', ''One More Time -'']"
    by (simp add: trim_def split_def is_space_def)
  have h2: "split '' - '' (trim ''A - B - C'') = [''A'', ''B'', ''C'']"
    by (simp add: trim_def split_def is_space_def)
  show ?thesis
    using h1 h2 getLinuxMusic_first_two_parts [OF h1, of "''B-''"]
      getLinuxMusic_first_two_parts [OF h2, of "''B-''"]
    by (simp add: trim_def is_space_def strip_trailing_hyphen_def)
qed

text \<open>
  C5 as the specification states it fails on ''A - B - C'': splitting at the first
  separator only would leave ''B - C'' as the second part, and both adapters return
  the title ''B''. On the other output of the claim getSpotifyMusicWindows returns the
  two parts as they are, comma and hyphen included.
\<close>

theorem cli_split_every_separator_counterexample:
  "getLinuxMusic (ExecOk ''A - B - C'') =
     Resolved (Some \<lparr>artist = ''A'', title = ''B'', album = None\<rparr>) \<and>
   getSpotifyMusicWindows (ExecOk ''A - B - C'') =
     Resolved (Some \<lparr>artist = ''A'', title = ''B'', album = None\<rparr>) \<and>
   split_on_first '' - '' ''A - B - C'' = [''A'', ''B - C''] \<and>
   getSpotifyMusicWindows (ExecOk ''Daft Punk, Pharrell - One More Time -'') =
     Resolved (Some \<lparr>artist = ''Daft Punk, Pharrell'', title = ''One More Time -'',
                      album = None\<rparr>)"
  by (simp add: getLinuxMusic_def getSpotifyMusicWindows_def trim_def split_def
      split_on_first_def is_space_def nth_opt_def truthy_def or_empty_def
      strip_trailing_hyphen_def)

text \<open>
  C6, as the code has it. getSpotifyMusicWindows never rejects: a failed command and
  every output that does not parse (the empty and the white-space-only output, and any
  output without '' - '', among them) give the same empty result. getLinuxMusic never
  gives the empty result: a failed command is rejected with one reason, every output
  that does not parse with another. Both resolve with a track on the outputs that
  parse.
\<close>
theorem cli_outcomes:
  "(\<exists>v. getSpotifyMusicWindows r = Resolved v) \<and>
   getSpotifyMusicWindows ExecError = Resolved None \<and>
   (\<not> cli_parsable out \<longrightarrow> getSpotifyMusicWindows (ExecOk out) = Resolved None) \<and>
   (cli_parsable out \<longrightarrow> (\<exists>m. getSpotifyMusicWindows (ExecOk out) = Resolved (Some m))) \<and>
   getLinuxMusic ExecError = Rejected ''An error occurred'' \<and>
   (\<not> cli_parsable out \<longrightarrow>
      getLinuxMusic (ExecOk out) = Rejected ''Unable to parse song information'') \<and>
   (cli_parsable out \<longrightarrow> (\<exists>m. getLinuxMusic (ExecOk out) = Resolved (Some m))) \<and>
   getLinuxMusic r \<noteq> Resolved None \<and>
   (trim out = [] \<longrightarrow> \<not> cli_parsable out) \<and>
   (\<not> sublist '' - '' (trim out) \<longrightarrow> \<not> cli_parsable out)"
proof -
  have e: "\<not> cli_parsable out" if "trim out = []"
    using that by (simp add: cli_parsable_def split_def)
  have n: "\<not> cli_parsable out" if "\<not> sublist '' - '' (trim out)"
    using split_no_separator [OF that] by (simp add: cli_parsable_def)
  have w: "getSpotifyMusicWindows (ExecOk out) = Resolved None" if "\<not> cli_parsable out"
    using that by (auto simp add: getSpotifyMusicWindows_def Let_def cli_parsable_iff)
  have w': "\<exists>m. getSpotifyMusicWindows (ExecOk out) = Resolved (Some m)" if "cli_parsable out"
  proof -
    have "trim out \<noteq> []" using that e by blast
    then show ?thesis
      using that by (simp add: getSpotifyMusicWindows_def Let_def cli_parsable_iff)
  qed
  have l: "getLinuxMusic (ExecOk out) = Rejected ''Unable to parse song information''"
    if "\<not> cli_parsable out"
    using that by (auto simp add: getLinuxMusic_def Let_def cli_parsable_iff)
  have l': "\<exists>m. getLinuxMusic (ExecOk out) = Resolved (Some m)" if "cli_parsable out"
    using that by (simp add: getLinuxMusic_def Let_def cli_parsable_iff)
  have ln: "getLinuxMusic r \<noteq> Resolved None"
    by (cases r) (simp_all add: getLinuxMusic_def Let_def)
  have we: "getSpotifyMusicWindows ExecError = Resolved None"
    by (simp add: getSpotifyMusicWindows_def)
  have le: "getLinuxMusic ExecError = Rejected ''An error occurred''"
    by (simp add: getLinuxMusic_def)
  show ?thesis
    using getSpotifyMusicWindows_resolved [of r] e n w w' l l' ln we le by blast
qed

text \<open>
  The theorem at a white-space-only output, at an output without separator and at an
  output that parses.
\<close>

theorem cli_outcomes_witness:
  "trim [CHR 0x20, CHR 0x0A] = [] \<and>
   cli_parsable [CHR 0x20, CHR 0x0A] = False \<and>
   getSpotifyMusicWindows (ExecOk [CHR 0x20, CHR 0x0A]) = Resolved None \<and>
   getLinuxMusic (ExecOk [CHR 0x20, CHR 0x0A]) = Rejected ''Unable to parse song information'' \<and>
   \<not> sublist '' - '' (trim ''One More Time'') \<and>
   getSpotifyMusicWindows (ExecOk ''One More Time'') = Resolved None \<and>
   getLinuxMusic (ExecOk ''One More Time'') = Rejected ''Unable to parse song information'' \<and>
   cli_parsable ''Daft Punk - One More Time'' \<and>
   getLinuxMusic (ExecOk ''Daft Punk - One More Time'') =
     Resolved (Some \<lparr>artist = ''Daft Punk'', title = ''One More Time'', album = None\<rparr>)"
proof -
  have t: "trim [CHR 0x20, CHR 0x0A] = []"
    by (simp add: trim_def is_space_def)
  have n: "\<not> sublist '' - '' (trim ''One More Time'')"
    by (simp add: trim_def is_space_def sublist_Cons_right)
  have p: "cli_parsable ''Daft Punk - One More Time''"
    by (simp add: cli_parsable_def trim_def split_def is_space_def)
  have g: "getLinuxMusic (ExecOk ''Daft Punk - One More Time'') =
     Resolved (Some \<lparr>artist = ''Daft Punk'', title = ''One More Time'', album = None\<rparr>)"
    by (simp add: getLinuxMusic_def trim_def split_def is_space_def nth_opt_def truthy_def
        or_empty_def strip_trailing_hyphen_def)
  show ?thesis
    using t n p g cli_outcomes [of _ "[CHR 0x20, CHR 0x0A]"]
      cli_outcomes [of _ "''One More Time''"]
      cli_outcomes [of _ "''Daft Punk - One More Time''"]
    by simp
qed

text \<open>
  C6 as the specification states it fails: on Windows the empty output, an output that
  does not parse and a failed command are the same empty result; on Linux the empty
  output is an error, the same one as for an output that does not parse.
\<close>

theorem cli_outcomes_collapse_counterexample:
  "getSpotifyMusicWindows (ExecOk '''') = Resolved None \<and>
   getSpotifyMusicWindows (ExecOk ''no separator here'') = Resolved None \<and>
   getSpotifyMusicWindows ExecError = Resolved None \<and>
   getLinuxMusic (ExecOk '''') = Rejected ''Unable to parse song information'' \<and>
   getLinuxMusic (ExecOk ''no separator here'') = Rejected ''Unable to parse song information''"
  by (simp add: getLinuxMusic_def getSpotifyMusicWindows_def trim_def split_def
      is_space_def nth_opt_def truthy_def or_empty_def)

section \<open>The browser-title adapter\<close>

text \<open>
  C7, as the code has it (getMacOSMusic). The tab title is trimmed and split at every
  '' - ''. With at least two parts, the title is the first part and the artist the
  second, both trimmed, and later parts are dropped. With fewer than two parts, in
  particular when the title contains no '' - '', the promise is rejected with a parse
  failure; a failed command is rejected too, and the empty result never occurs.
\<close>
theorem getMacOSMusic_title_then_artist:
  "(split '' - '' (trim out) = p0 # p1 # rest \<longrightarrow>
      getMacOSMusic (ExecOk out) =
        Resolved (Some \<lparr>artist = trim p1, title = trim p0, album = None\<rparr>) \<and>
      trim out = join '' - '' (p0 # p1 # rest)) \<and>
   (length (split '' - '' (trim out)) < 2 \<longrightarrow>
      getMacOSMusic (ExecOk out) = Rejected ''Unable to parse song information'') \<and>
   (\<not> sublist '' - '' (trim out) \<longrightarrow>
      getMacOSMusic (ExecOk out) = Rejected ''Unable to parse song information'') \<and>
   getMacOSMusic ExecError = Rejected ''An error occurred'' \<and>
   getMacOSMusic r \<noteq> Resolved None"
proof -
  have a: "getMacOSMusic (ExecOk out) =
        Resolved (Some \<lparr>artist = trim p1, title = trim p0, album = None\<rparr>) \<and>
      trim out = join '' - '' (p0 # p1 # rest)"
    if h: "split '' - '' (trim out) = p0 # p1 # rest"
    using join_split [of "'' - ''" "trim out"] h by (simp add: getMacOSMusic_def Let_def)
  have b: "getMacOSMusic (ExecOk out) = Rejected ''Unable to parse song information''"
    if "length (split '' - '' (trim out)) < 2"
    using that by (simp add: getMacOSMusic_def Let_def)
  have c: "getMacOSMusic (ExecOk out) = Rejected ''Unable to parse song information''"
    if "\<not> sublist '' - '' (trim out)"
    using split_no_separator [OF that] by (simp add: getMacOSMusic_def Let_def)
  have d: "getMacOSMusic ExecError = Rejected ''An error occurred''"
    by (simp add: getMacOSMusic_def)
  have e: "getMacOSMusic r \<noteq> Resolved None"
    by (cases r) (simp_all add: getMacOSMusic_def Let_def)
  show ?thesis using a b c d e by blast
qed

text \<open>The theorem at the two tab titles of the specification.\<close>

theorem getMacOSMusic_title_then_artist_witness:
  "split '' - '' (trim ''One More Time - Daft Punk'') = [''One More Time'', ''Daft Punk''] \<and>
   getMacOSMusic (ExecOk ''One More Time - Daft Punk'') =
     Resolved (Some \<lparr>artist = ''Daft Punk'', title = ''One More Time'', album = None\<rparr>) \<and>
   \<not> sublist '' - '' (trim ''One More Time'') \<and>
   length (split '' - '' (trim ''One More Time'')) < 2 \<and>
   getMacOSMusic (ExecOk ''One More Time'') = Rejected ''Unable to parse song information''"
proof -
  have h1: "split '' - '' (trim ''One More Time - Daft Punk'') = [''One More Time'', ''Daft Punk'']"
    by (simp add: trim_def split_def is_space_def)
  have h2: "length (split '' - '' (trim ''One More Time'')) < 2"
    by (simp add: trim_def split_def is_space_def)
  have h3: "\<not> sublist '' - '' (trim ''One More Time'')"
    by (simp add: trim_def is_space_def sublist_Cons_right)
  show ?thesis
    using h1 h2 h3
      getMacOSMusic_title_then_artist [of "''One More Time - Daft Punk''" "''One More Time''" "''Daft Punk''" "[]"]
      getMacOSMusic_title_then_artist [of "''One More Time''"]
    by (simp add: trim_def is_space_def)
qed

text \<open>
  C7 as the specification states it fails on a tab title with two separators:
  splitting at the first one only would make ''Daft Punk - Topic'' the second part,
  and the adapter returns the artist ''Daft Punk''.
\<close>

theorem getMacOSMusic_three_parts_counterexample:
  "getMacOSMusic (ExecOk ''One More Time - Daft Punk - Topic'') =
     Resolved (Some \<lparr>artist = ''Daft Punk'', title = ''One More Time'', album = None\<rparr>) \<and>
   split_on_first '' - '' ''One More Time - Daft Punk - Topic'' =
     [''One More Time'', ''Daft Punk - Topic'']"
  by (simp add: getMacOSMusic_def trim_def split_def split_on_first_def is_space_def)

section \<open>The platform fallback\<close>

lemma getDeezerMusic_resolved:
  "\<exists>v dm'. getDeezerMusic fresh dm = (Resolved v, dm')"
  by (auto simp add: getDeezerMusic_def split: option.splits prod.splits)

text \<open>
  C8. getWindowsMusic asks the native adapter first. When that yields a track, the
  track is the result and playerctl is not run. When it yields nothing, playerctl is
  run and its result is the result: the track it found, or nothing when it found
  none. The promise is never rejected.
\<close>

theorem getWindowsMusic_fallback:
  "(fst (getDeezerMusic fresh dm) = Resolved (Some m) \<longrightarrow>
      getWindowsMusic fresh playerctl dm =
        (Resolved (Some m), [DeezerAdapter], snd (getDeezerMusic fresh dm))) \<and>
   (fst (getDeezerMusic fresh dm) = Resolved None \<longrightarrow>
      getWindowsMusic fresh playerctl dm =
        (getSpotifyMusicWindows playerctl, [DeezerAdapter, PlayerctlAdapter],
         snd (getDeezerMusic fresh dm))) \<and>
   (fst (getDeezerMusic fresh dm) = Resolved None \<and>
    getSpotifyMusicWindows playerctl = Resolved None \<longrightarrow>
      fst (getWindowsMusic fresh playerctl dm) = Resolved None) \<and>
   (\<forall>e. fst (getWindowsMusic fresh playerctl dm) \<noteq> Rejected e)"
proof -
  obtain v dm' where d: "getDeezerMusic fresh dm = (Resolved v, dm')"
    using getDeezerMusic_resolved by blast
  obtain w where s: "getSpotifyMusicWindows playerctl = Resolved w"
    using getSpotifyMusicWindows_resolved by blast
  show ?thesis
    by (cases v; cases w) (simp_all add: getWindowsMusic_def d s)
qed

text \<open>
  The theorem end to end: no monitor yet and no session, so the native adapter yields
  nothing; playerctl prints ''A - B'', respectively nothing. With a monitor that sees
  a session with a media field, the native adapter's track is the result and playerctl
  is not run.
\<close>

theorem getWindowsMusic_fallback_witness:
  "fst (getDeezerMusic (Some idle_smtc) None) = Resolved None \<and>
   getSpotifyMusicWindows (ExecOk ''A - B'') =
     Resolved (Some \<lparr>artist = ''A'', title = ''B'', album = None\<rparr>) \<and>
   fst (getWindowsMusic (Some idle_smtc) (ExecOk ''A - B'') None) =
     Resolved (Some \<lparr>artist = ''A'', title = ''B'', album = None\<rparr>) \<and>
   fst (snd (getWindowsMusic (Some idle_smtc) (ExecOk ''A - B'') None)) =
     [DeezerAdapter, PlayerctlAdapter] \<and>
   fst (getWindowsMusic (Some idle_smtc) (ExecOk []) None) = Resolved None \<and>
   fst (getWindowsMusic None (ExecOk ''A - B'')
          (Some (step (new_DeezerMusicMonitor idle_smtc)
                   (SessionsBecome (Some [Some library_session]))))) =
     Resolved (Some \<lparr>artist = ''Daft Punk'', title = ''One More Time'',
                      album = Some ''Discovery''\<rparr>) \<and>
   fst (snd (getWindowsMusic None (ExecOk ''A - B'')
          (Some (step (new_DeezerMusicMonitor idle_smtc)
                   (SessionsBecome (Some [Some library_session])))))) = [DeezerAdapter]"
proof -
  have d: "fst (getDeezerMusic (Some idle_smtc) None) = Resolved None"
    by (simp add: getDeezerMusic_def getCurrentMusic_def start_def console_log_def
        call_native_def new_DeezerMusicMonitor_def idle_smtc_def Let_def)
  have s: "getSpotifyMusicWindows (ExecOk ''A - B'') =
     Resolved (Some \<lparr>artist = ''A'', title = ''B'', album = None\<rparr>)"
    by (simp add: getSpotifyMusicWindows_def trim_def split_def is_space_def nth_opt_def
        truthy_def or_empty_def)
  have e: "getSpotifyMusicWindows (ExecOk []) = Resolved None"
    by (simp add: getSpotifyMusicWindows_def trim_def)
  have n: "fst (getDeezerMusic None
          (Some (step (new_DeezerMusicMonitor idle_smtc)
                   (SessionsBecome (Some [Some library_session]))))) =
     Resolved (Some \<lparr>artist = ''Daft Punk'', title = ''One More Time'',
                      album = Some ''Discovery''\<rparr>)"
    by (simp add: getDeezerMusic_def getCurrentMusic_def start_def console_log_def
        call_native_def new_DeezerMusicMonitor_def idle_smtc_def library_session_def
        hasMusicChanged_def or_empty_def Let_def)
  show ?thesis
    using d s e n
      getWindowsMusic_fallback [of "Some idle_smtc" None _ "ExecOk ''A - B''"]
      getWindowsMusic_fallback [of "Some idle_smtc" None _ "ExecOk []"]
      getWindowsMusic_fallback [of None
          "Some (step (new_DeezerMusicMonitor idle_smtc)
                   (SessionsBecome (Some [Some library_session])))"
          "\<lparr>artist = ''Daft Punk'', title = ''One More Time'', album = Some ''Discovery''\<rparr>"
          "ExecOk ''A - B''"]
    by simp
qed

end
